theory Spec2Isabelle
  imports Complex_Main
begin

section \<open>Login monitoring: baseline statistics, anomaly classification, alert debouncing\<close>

text \<open>
  A shallow embedding of \<^verbatim>\<open>monitor_logins.py\<close>. A data frame is the list of its rows in
  index order. The float64 columns hold values of the type \<open>float64\<close> below, with the
  rounding, the infinities and NaN of the hardware arithmetic. A function of the source
  that returns \<^verbatim>\<open>None\<close> to signal failure returns \<open>None\<close> here.
\<close>

subsection \<open>Double-precision numbers\<close>

text \<open>
  A float64 is a real number (one of the finitely many that the format represents), an
  infinity or NaN. The two zeros of the format are not told apart: they compare equal and
  no operation of the source divides by them.
\<close>

datatype float64 = Finite real | PosInf | NegInf | NaN

definition pow2 :: "int \<Rightarrow> real" where
  "pow2 k = (if 0 \<le> k then 2 ^ nat k else 1 / 2 ^ nat (- k))"

text \<open>Rounding to the nearest integer, a tie going to the even one.\<close>

definition round_half_even :: "real \<Rightarrow> int" where
  "round_half_even x =
     (let f = \<lfloor>x\<rfloor>; d = x - of_int f
      in if d < 1 / 2 then f else if 1 / 2 < d then f + 1 else if even f then f else f + 1)"

text \<open>
  The binary exponent of a magnitude: the largest \<open>e\<close> from 1023 down to \<open>-1022\<close> with
  \<open>2 ^ e \<le> x\<close>, and \<open>-1022\<close> (the exponent of the subnormal numbers) when there is none.
\<close>

fun exponent_search :: "nat \<Rightarrow> int \<Rightarrow> real \<Rightarrow> int" where
  "exponent_search 0 e x = e"
| "exponent_search (Suc n) e x = (if pow2 e \<le> x then e else exponent_search n (e - 1) x)"

definition exponent_of :: "real \<Rightarrow> int" where
  "exponent_of x = exponent_search 2045 1023 \<bar>x\<bar>"

text \<open>
  Rounding a real result to float64, to nearest with ties to even: the magnitude is
  rounded to a multiple of the unit in the last place (53 significant bits), and a
  rounded magnitude of \<open>2 ^ 1024\<close> or more overflows to an infinity.
\<close>

definition round_to_double :: "real \<Rightarrow> float64" where
  "round_to_double x =
     (let ulp = pow2 (exponent_of x - 52);
          y = of_int (round_half_even (\<bar>x\<bar> / ulp)) * ulp
      in if pow2 1024 \<le> y then (if 0 < x then PosInf else NegInf)
         else Finite (if 0 < x then y else - y))"

fun negate :: "float64 \<Rightarrow> float64" where
  "negate (Finite x) = Finite (- x)"
| "negate PosInf = NegInf"
| "negate NegInf = PosInf"
| "negate NaN = NaN"

fun float_add :: "float64 \<Rightarrow> float64 \<Rightarrow> float64" where
  "float_add NaN b = NaN"
| "float_add a NaN = NaN"
| "float_add (Finite x) (Finite y) = round_to_double (x + y)"
| "float_add PosInf NegInf = NaN"
| "float_add NegInf PosInf = NaN"
| "float_add PosInf b = PosInf"
| "float_add NegInf b = NegInf"
| "float_add (Finite x) b = b"

fun float_mul :: "float64 \<Rightarrow> float64 \<Rightarrow> float64" where
  "float_mul NaN b = NaN"
| "float_mul a NaN = NaN"
| "float_mul (Finite x) (Finite y) = round_to_double (x * y)"
| "float_mul (Finite x) PosInf = (if x = 0 then NaN else if 0 < x then PosInf else NegInf)"
| "float_mul (Finite x) NegInf = (if x = 0 then NaN else if 0 < x then NegInf else PosInf)"
| "float_mul PosInf (Finite y) = (if y = 0 then NaN else if 0 < y then PosInf else NegInf)"
| "float_mul NegInf (Finite y) = (if y = 0 then NaN else if 0 < y then NegInf else PosInf)"
| "float_mul PosInf PosInf = PosInf"
| "float_mul NegInf NegInf = PosInf"
| "float_mul PosInf NegInf = NegInf"
| "float_mul NegInf PosInf = NegInf"

text \<open>A comparison with NaN on either side is false.\<close>

fun float_less :: "float64 \<Rightarrow> float64 \<Rightarrow> bool" where
  "float_less NaN b = False"
| "float_less a NaN = False"
| "float_less (Finite x) (Finite y) = (x < y)"
| "float_less a NegInf = False"
| "float_less PosInf b = False"
| "float_less NegInf b = True"
| "float_less (Finite x) PosInf = True"

text \<open>
  The operators \<open>+\<close>, \<open>-\<close>, \<open>*\<close>, \<open><\<close>, \<open>\<le>\<close> and the literal \<open>0\<close> on \<open>float64\<close> are
  those of the source on its float64 columns.
\<close>

instantiation float64 :: "{zero, plus, minus, times, ord}"
begin

definition zero_float64 :: float64 where
  "0 = Finite 0"

definition plus_float64 :: "float64 \<Rightarrow> float64 \<Rightarrow> float64" where
  "a + b = float_add a b"

definition minus_float64 :: "float64 \<Rightarrow> float64 \<Rightarrow> float64" where
  "a - b = float_add a (negate b)"

definition times_float64 :: "float64 \<Rightarrow> float64 \<Rightarrow> float64" where
  "a * b = float_mul a b"

definition less_float64 :: "float64 \<Rightarrow> float64 \<Rightarrow> bool" where
  "a < b = float_less a b"

definition less_eq_float64 :: "float64 \<Rightarrow> float64 \<Rightarrow> bool" where
  "a \<le> b = (float_less a b \<or> (a = b \<and> a \<noteq> NaN))"

instance ..

end

text \<open>\<^verbatim>\<open>np.maximum\<close>: the larger argument, NaN when either is NaN.\<close>

definition np_maximum :: "float64 \<Rightarrow> float64 \<Rightarrow> float64" where
  "np_maximum a b = (if a = NaN \<or> b = NaN then NaN else if a < b then b else a)"

text \<open>\<^verbatim>\<open>fillna(0)\<close> on one cell.\<close>

definition fillna0 :: "float64 \<Rightarrow> float64" where
  "fillna0 x = (if x = NaN then 0 else x)"

subsection \<open>Constants\<close>

text \<open>
  The literals \<^verbatim>\<open>3.0\<close> and \<^verbatim>\<open>200\<close> are represented exactly; \<^verbatim>\<open>1e-6\<close> denotes the
  float64 nearest to one millionth.
\<close>

definition STD_DEV_THRESHOLD :: float64 where
  "STD_DEV_THRESHOLD = Finite 3"

definition CONSECUTIVE_MINUTES_THRESHOLD :: int where
  "CONSECUTIVE_MINUTES_THRESHOLD = 10"

definition BASELINE_ZERO_THRESHOLD :: float64 where
  "BASELINE_ZERO_THRESHOLD = Finite 200"

definition STD_DEV_EPSILON :: float64 where
  "STD_DEV_EPSILON = round_to_double (1 / 1000000)"

subsection \<open>Timestamps and the minute-of-week key\<close>

text \<open>
  A timestamp of a \<^verbatim>\<open>DatetimeIndex\<close> is a count of nanoseconds since 1970-01-01T00:00,
  a Thursday (weekday 3 when Monday is 0). The accessors are the calendar fields the
  source reads.
\<close>

type_synonym timestamp = int

definition dayofweek :: "timestamp \<Rightarrow> int" where
  "dayofweek t = (t div 86400000000000 + 3) mod 7"

definition hour :: "timestamp \<Rightarrow> int" where
  "hour t = (t div 3600000000000) mod 24"

definition minute :: "timestamp \<Rightarrow> int" where
  "minute t = (t div 60000000000) mod 60"

text \<open>The expression \<^verbatim>\<open>index.dayofweek * 24 * 60 + index.hour * 60 + index.minute\<close>.\<close>

definition minute_of_week_of :: "timestamp \<Rightarrow> int" where
  "minute_of_week_of t = dayofweek t * 24 * 60 + hour t * 60 + minute t"

subsection \<open>Data frames\<close>

text \<open>
  The rows of a frame as \<^verbatim>\<open>load_and_prepare_data\<close> produces it: index \<^verbatim>\<open>time\<close> (a
  \<^verbatim>\<open>DatetimeIndex\<close>), one column \<^verbatim>\<open>measurement_value\<close>.
\<close>

type_synonym series_df = "(timestamp \<times> float64) list"

text \<open>
  A frame handed to \<^verbatim>\<open>calculate_baseline_stats\<close> or \<^verbatim>\<open>detect_anomalies\<close>: its index is
  a \<^verbatim>\<open>DatetimeIndex\<close>, or it is some other index, whose labels are not modelled.
\<close>

datatype frame = DatetimeIndexed series_df | OtherIndexed "float64 list"

text \<open>
  The baseline statistics table: index \<^verbatim>\<open>minute_of_week\<close>, columns \<^verbatim>\<open>mean\<close> and
  \<^verbatim>\<open>std\<close>. The index of a \<^verbatim>\<open>groupby\<close> result is unique, so the table is a map.
\<close>

type_synonym baseline_stats = "int \<rightharpoonup> (float64 \<times> float64)"

text \<open>
  One row of the frame returned by \<^verbatim>\<open>detect_anomalies\<close>. A column of whole numbers
  (int64) is converted to float64 by the comparisons and the aggregations it takes part
  in; it is modelled by those float64 values.
\<close>

record verdict =
  time :: timestamp
  measurement_value :: float64
  minute_of_week :: int
  mean :: float64
  std :: float64
  upper_bound :: float64
  lower_bound :: float64
  is_anomaly :: bool
  anomaly_type :: string

text \<open>The exceptions the body of a \<^verbatim>\<open>try\<close> block can raise.\<close>

datatype exn = KeyError | TypeError | IndexError | AttributeError

text \<open>
  Reading \<^verbatim>\<open>df.index.dayofweek\<close>, \<^verbatim>\<open>hour\<close> and \<^verbatim>\<open>minute\<close>: an index that is not a
  \<^verbatim>\<open>DatetimeIndex\<close> has no such attributes.
\<close>

definition datetime_rows :: "frame \<Rightarrow> exn + series_df" where
  "datetime_rows f =
     (case f of DatetimeIndexed rows \<Rightarrow> Inr rows | OtherIndexed vs \<Rightarrow> Inl AttributeError)"

subsection \<open>\<^verbatim>\<open>calculate_baseline_stats\<close>\<close>

text \<open>
  \<^verbatim>\<open>groupby('minute_of_week')['measurement_value']\<close>: the rows are visited in order and
  each value is appended to the group of its key.
\<close>

definition groupby_add ::
  "(int \<rightharpoonup> float64 list) \<Rightarrow> timestamp \<times> float64 \<Rightarrow> (int \<rightharpoonup> float64 list)" where
  "groupby_add g row =
     (let k = minute_of_week_of (fst row) in
      g(k \<mapsto> (case g k of None \<Rightarrow> [snd row] | Some vs \<Rightarrow> vs @ [snd row])))"

definition groupby :: "series_df \<Rightarrow> (int \<rightharpoonup> float64 list)" where
  "groupby df = foldl groupby_add Map.empty df"

text \<open>
  The body of the \<^verbatim>\<open>try\<close> block. The aggregations \<^verbatim>\<open>mean\<close> and \<^verbatim>\<open>std\<close> of
  \<^verbatim>\<open>.agg(['mean', 'std'])\<close> are pandas code: they are the parameters \<open>pd_mean\<close> and
  \<open>pd_std\<close>, each taking the values of one group to a float64. The \<^verbatim>\<open>std\<close> column is
  then filled with \<^verbatim>\<open>fillna(0)\<close>.
\<close>

definition baseline_body ::
  "(float64 list \<Rightarrow> float64) \<Rightarrow> (float64 list \<Rightarrow> float64) \<Rightarrow> frame \<Rightarrow> exn + baseline_stats" where
  "baseline_body pd_mean pd_std f =
     (case datetime_rows f of
        Inl e \<Rightarrow> Inl e
      | Inr df \<Rightarrow>
          Inr (\<lambda>k. case groupby df k of
                      None \<Rightarrow> None
                    | Some xs \<Rightarrow> Some (pd_mean xs, fillna0 (pd_std xs))))"

text \<open>The guard, the \<^verbatim>\<open>try\<close> block and \<^verbatim>\<open>except Exception: return None\<close>.\<close>

definition calculate_baseline_stats ::
  "(float64 list \<Rightarrow> float64) \<Rightarrow> (float64 list \<Rightarrow> float64) \<Rightarrow> frame option
   \<Rightarrow> baseline_stats option" where
  "calculate_baseline_stats pd_mean pd_std baseline_df =
     (case baseline_df of
        None \<Rightarrow> None
      | Some f \<Rightarrow>
          (case baseline_body pd_mean pd_std f of
             Inl e \<Rightarrow> None
           | Inr stats \<Rightarrow> Some stats))"

subsection \<open>\<^verbatim>\<open>detect_anomalies\<close>\<close>

text \<open>
  The left merge on \<^verbatim>\<open>minute_of_week\<close> gives every measured row the statistics of its
  bucket, NaN in both columns when the bucket is not in the table; both columns are then
  filled with 0.
\<close>

definition merged_mean :: "baseline_stats \<Rightarrow> int \<Rightarrow> float64" where
  "merged_mean stats k = fillna0 (case stats k of None \<Rightarrow> NaN | Some ms \<Rightarrow> fst ms)"

definition merged_std :: "baseline_stats \<Rightarrow> int \<Rightarrow> float64" where
  "merged_std stats k = fillna0 (case stats k of None \<Rightarrow> NaN | Some ms \<Rightarrow> snd ms)"

definition upper_bound_of :: "float64 \<Rightarrow> float64 \<Rightarrow> float64" where
  "upper_bound_of m s = m + STD_DEV_THRESHOLD * s"

definition lower_bound_of :: "float64 \<Rightarrow> float64 \<Rightarrow> float64" where
  "lower_bound_of m s = np_maximum 0 (m - STD_DEV_THRESHOLD * s)"

definition deviation_anomaly :: "float64 \<Rightarrow> float64 \<Rightarrow> float64 \<Rightarrow> float64 \<Rightarrow> bool" where
  "deviation_anomaly v lb ub s = ((v < lb \<or> v > ub) \<and> s > STD_DEV_EPSILON)"

definition zero_anomaly :: "float64 \<Rightarrow> float64 \<Rightarrow> bool" where
  "zero_anomaly v m = (v = 0 \<and> m \<ge> BASELINE_ZERO_THRESHOLD)"

text \<open>
  The column \<^verbatim>\<open>anomaly_type\<close> is written three times in sequence: the default, the rows
  of the zero mask, then the rows of the two deviation masks that still hold the default.
\<close>

definition assign_type :: "bool \<Rightarrow> bool \<Rightarrow> float64 \<Rightarrow> float64 \<Rightarrow> float64 \<Rightarrow> string" where
  "assign_type dev zero v lb ub =
     (let t0 = ''Normal'';
          t1 = (if zero then ''Zero'' else t0);
          t2 = (if dev \<and> t1 = ''Normal'' \<and> v < lb then ''Low'' else t1);
          t3 = (if dev \<and> t2 = ''Normal'' \<and> v > ub then ''High'' else t2)
      in t3)"

definition classify_row :: "baseline_stats \<Rightarrow> timestamp \<times> float64 \<Rightarrow> verdict" where
  "classify_row stats row =
     (let t = fst row; v = snd row;
          k = minute_of_week_of t;
          m = merged_mean stats k;
          s = merged_std stats k;
          ub = upper_bound_of m s;
          lb = lower_bound_of m s;
          dev = deviation_anomaly v lb ub s;
          zero = zero_anomaly v m
      in \<lparr> time = t, measurement_value = v, minute_of_week = k, mean = m, std = s,
           upper_bound = ub, lower_bound = lb, is_anomaly = (dev \<or> zero),
           anomaly_type = assign_type dev zero v lb ub \<rparr>)"

text \<open>The body of the \<^verbatim>\<open>try\<close> block.\<close>

definition detect_body :: "frame \<Rightarrow> baseline_stats \<Rightarrow> exn + verdict list" where
  "detect_body f stats =
     (case datetime_rows f of
        Inl e \<Rightarrow> Inl e
      | Inr df \<Rightarrow> Inr (map (classify_row stats) df))"

text \<open>The guard, the \<^verbatim>\<open>try\<close> block and \<^verbatim>\<open>except Exception: return None\<close>.\<close>

definition detect_anomalies :: "frame option \<Rightarrow> baseline_stats option \<Rightarrow> verdict list option" where
  "detect_anomalies measured_df baseline_stats =
     (case measured_df of
        None \<Rightarrow> None
      | Some f \<Rightarrow>
          (case baseline_stats of
             None \<Rightarrow> None
           | Some stats \<Rightarrow>
               (case detect_body f stats of
                  Inl e \<Rightarrow> None
                | Inr out \<Rightarrow> Some out)))"

subsection \<open>\<^verbatim>\<open>monitor_and_alert\<close>\<close>

text \<open>
  The five local variables of the loop.
\<close>

record alert_state =
  alert_active :: bool
  anomaly_streak :: int
  normal_streak :: int
  alert_start_timestamp :: "timestamp option"
  initial_anomaly_type :: "string option"

definition initial_state :: alert_state where
  "initial_state = \<lparr> alert_active = False, anomaly_streak = 0, normal_streak = 0,
                      alert_start_timestamp = None, initial_anomaly_type = None \<rparr>"

text \<open>
  What the function prints, one value per block of output.
  \<open>AlertStarted detected_at estimated_start initial_type initial_value current_value
  baseline_mean lower upper\<close>;
  \<open>AlertResolved detected_at estimated_resolve original_start original_type
  current_value baseline_mean\<close>;
  \<open>StartError\<close> and \<open>ResolveError\<close> are the messages of the two \<^verbatim>\<open>except\<close> blocks;
  \<open>AlertStillActive\<close> is the warning after the loop; \<open>CannotMonitor\<close> the message of the
  guard at the top.
\<close>

datatype event =
    AlertStarted timestamp timestamp string float64 float64 float64 float64 float64
  | AlertResolved timestamp timestamp "timestamp option" "string option" float64 float64
  | StartError timestamp exn
  | ResolveError timestamp exn
  | AlertStillActive "timestamp option" "string option"
  | CannotMonitor

text \<open>
  \<^verbatim>\<open>Index.get_loc(key)\<close>. The result is an integer position when the key occurs once;
  when it occurs several times the result is a slice (monotonic index) or a boolean mask
  (otherwise); a key that does not occur raises \<^verbatim>\<open>KeyError\<close>.
\<close>

datatype loc = IntLoc nat | SliceOrMask

definition get_loc :: "timestamp list \<Rightarrow> timestamp \<Rightarrow> exn + loc" where
  "get_loc idx key =
     (case filter (\<lambda>j. idx ! j = key) [0..<length idx] of
        [] \<Rightarrow> Inl KeyError
      | [j] \<Rightarrow> Inr (IntLoc j)
      | _ \<Rightarrow> Inr SliceOrMask)"

text \<open>
  \<^verbatim>\<open>max(0, current_pos - (CONSECUTIVE_MINUTES_THRESHOLD - 1))\<close>. Subtracting an integer
  from a slice raises \<^verbatim>\<open>TypeError\<close>; from a mask it gives an array, on which
  \<^verbatim>\<open>max(0, ...)\<close> raises as well. Both are caught by \<^verbatim>\<open>except Exception\<close>; the model
  names them \<open>TypeError\<close>.
\<close>

definition backtrack_pos :: "loc \<Rightarrow> exn + int" where
  "backtrack_pos current_pos =
     (case current_pos of
        IntLoc p \<Rightarrow> Inr (max 0 (int p - (CONSECUTIVE_MINUTES_THRESHOLD - 1)))
      | SliceOrMask \<Rightarrow> Inl TypeError)"

text \<open>\<^verbatim>\<open>anomalies_df.index[pos]\<close> and \<^verbatim>\<open>anomalies_df.iloc[pos]\<close> for \<open>pos \<ge> 0\<close>.\<close>

definition iloc :: "verdict list \<Rightarrow> int \<Rightarrow> exn + verdict" where
  "iloc df pos = (if 0 \<le> pos \<and> pos < int (length df) then Inr (df ! nat pos) else Inl IndexError)"

text \<open>
  The lookups of both \<^verbatim>\<open>try\<close> blocks: the row at the backtracked position, or the
  exception raised on the way.
\<close>

definition backtrack_row :: "verdict list \<Rightarrow> timestamp \<Rightarrow> exn + verdict" where
  "backtrack_row df current_timestamp =
     (case get_loc (map time df) current_timestamp of
        Inl e \<Rightarrow> Inl e
      | Inr current_pos \<Rightarrow>
          (case backtrack_pos current_pos of
             Inl e \<Rightarrow> Inl e
           | Inr pos \<Rightarrow> iloc df pos))"

text \<open>One iteration of the loop: the new state and what was printed.\<close>

definition step :: "verdict list \<Rightarrow> verdict \<Rightarrow> alert_state \<Rightarrow> alert_state \<times> event list" where
  "step df row s =
     (if is_anomaly row then
        (let s1 = s\<lparr> anomaly_streak := anomaly_streak s + 1, normal_streak := 0 \<rparr> in
         if anomaly_streak s1 \<ge> CONSECUTIVE_MINUTES_THRESHOLD \<and> \<not> alert_active s1 then
           (case backtrack_row df (time row) of
              Inr first \<Rightarrow>
                (s1\<lparr> alert_start_timestamp := Some (time first),
                     initial_anomaly_type := Some (anomaly_type first),
                     alert_active := True \<rparr>,
                 [AlertStarted (time row) (time first) (anomaly_type first)
                    (measurement_value first) (measurement_value row) (mean row)
                    (lower_bound row) (upper_bound row)])
            | Inl e \<Rightarrow>
                (s1\<lparr> alert_active := False, alert_start_timestamp := None,
                     initial_anomaly_type := None \<rparr>,
                 [StartError (time row) e]))
         else (s1, []))
      else
        (let s1 = s\<lparr> normal_streak := normal_streak s + 1 \<rparr>;
             s2 = (if anomaly_streak s1 > 0 then s1\<lparr> anomaly_streak := 0 \<rparr> else s1) in
         if normal_streak s2 \<ge> CONSECUTIVE_MINUTES_THRESHOLD \<and> alert_active s2 then
           (case backtrack_row df (time row) of
              Inr first \<Rightarrow>
                (s2\<lparr> alert_active := False, alert_start_timestamp := None,
                     initial_anomaly_type := None \<rparr>,
                 [AlertResolved (time row) (time first) (alert_start_timestamp s2)
                    (initial_anomaly_type s2) (measurement_value row) (mean row)])
            | Inl e \<Rightarrow>
                (s2\<lparr> alert_active := False, alert_start_timestamp := None,
                     initial_anomaly_type := None \<rparr>,
                 [ResolveError (time row) e]))
         else (s2, [])))"

text \<open>
  The loop \<^verbatim>\<open>for row_tuple in anomalies_df.itertuples()\<close> over the rows still to visit;
  \<open>df\<close> is the whole frame, which the lookups read.
\<close>

fun monitor_loop :: "verdict list \<Rightarrow> verdict list \<Rightarrow> alert_state \<Rightarrow> alert_state \<times> event list" where
  "monitor_loop df [] s = (s, [])"
| "monitor_loop df (row # rows) s =
     (let (s1, es1) = step df row s;
          (s2, es2) = monitor_loop df rows s1
      in (s2, es1 @ es2))"

definition monitor_and_alert :: "verdict list option \<Rightarrow> event list" where
  "monitor_and_alert anomalies_df =
     (case anomalies_df of
        None \<Rightarrow> [CannotMonitor]
      | Some df \<Rightarrow>
          (let (s, es) = monitor_loop df df initial_state in
           es @ (if alert_active s
                 then [AlertStillActive (alert_start_timestamp s) (initial_anomaly_type s)]
                 else [])))"

text \<open>The state in which the row at position \<open>i\<close> is visited.\<close>

definition state_before :: "verdict list \<Rightarrow> nat \<Rightarrow> alert_state" where
  "state_before df i = fst (monitor_loop df (take i df) initial_state)"

text \<open>
  Reading an event sequence against the two states of the machine: starting from
  \<open>active\<close>, every \<open>AlertStarted\<close> comes when inactive and makes it active, every
  \<open>AlertResolved\<close> comes when active and makes it inactive.
\<close>

fun alternating :: "bool \<Rightarrow> event list \<Rightarrow> bool" where
  "alternating active [] = True"
| "alternating active (AlertStarted a b c d e f g h # es) = (\<not> active \<and> alternating True es)"
| "alternating active (AlertResolved a b c d e f # es) = (active \<and> alternating False es)"
| "alternating active (_ # es) = alternating active es"

fun is_started :: "event \<Rightarrow> bool" where
  "is_started (AlertStarted a b c d e f g h) = True"
| "is_started _ = False"

fun is_resolved :: "event \<Rightarrow> bool" where
  "is_resolved (AlertResolved a b c d e f) = True"
| "is_resolved _ = False"

text \<open>What has been printed when the row at position \<open>i\<close> is visited.\<close>

definition events_before :: "verdict list \<Rightarrow> nat \<Rightarrow> event list" where
  "events_before df i = snd (monitor_loop df (take i df) initial_state)"

text \<open>
  The alert an event log leaves open: the estimated start and the type of the last
  \<open>AlertStarted\<close>, unless a resolution or an error report came after it.
\<close>

fun open_alert :: "event list \<Rightarrow> (timestamp \<times> string) option \<Rightarrow> (timestamp \<times> string) option" where
  "open_alert [] cur = cur"
| "open_alert (AlertStarted a b c d e f g h # es) cur = open_alert es (Some (b, c))"
| "open_alert (AlertResolved a b c d e f # es) cur = open_alert es None"
| "open_alert (StartError a b # es) cur = open_alert es None"
| "open_alert (ResolveError a b # es) cur = open_alert es None"
| "open_alert (_ # es) cur = open_alert es cur"

text \<open>Stored provenance only while active.\<close>

definition provenance_cleared :: "alert_state \<Rightarrow> bool" where
  "provenance_cleared s =
     (\<not> alert_active s \<longrightarrow> alert_start_timestamp s = None \<and> initial_anomaly_type s = None)"


subsection \<open>Example frames\<close>

text \<open>
  Rows as the classifier produces them for a bucket with mean 300 and no variance:
  a value of 0 is a \<open>Zero\<close> anomaly, a value of 300 is normal.
\<close>

definition anomalous_row :: "timestamp \<Rightarrow> verdict" where
  "anomalous_row t =
     \<lparr> time = t, measurement_value = 0, minute_of_week = minute_of_week_of t,
       mean = Finite 300, std = 0, upper_bound = Finite 300, lower_bound = Finite 300,
       is_anomaly = True, anomaly_type = ''Zero'' \<rparr>"

definition normal_row :: "timestamp \<Rightarrow> verdict" where
  "normal_row t =
     \<lparr> time = t, measurement_value = Finite 300, minute_of_week = minute_of_week_of t,
       mean = Finite 300, std = 0, upper_bound = Finite 300, lower_bound = Finite 300,
       is_anomaly = False, anomaly_type = ''Normal'' \<rparr>"

text \<open>One normal row, ten anomalous rows, ten normal rows; timestamps strictly ascending.\<close>

definition ascending_df :: "verdict list" where
  "ascending_df =
     normal_row 0 # map anomalous_row [1, 2, 3, 4, 5, 6, 7, 8, 9, 10]
     @ map normal_row [11, 12, 13, 14, 15, 16, 17, 18, 19, 20]"

text \<open>
  Ten anomalous rows, ten normal rows of which the last two share a timestamp, ten
  anomalous rows.
\<close>

definition repeated_time_df :: "verdict list" where
  "repeated_time_df =
     map anomalous_row [0, 1, 2, 3, 4, 5, 6, 7, 8, 9]
     @ map normal_row [10, 11, 12, 13, 14, 15, 16, 17, 18, 18]
     @ map anomalous_row [20, 21, 22, 23, 24, 25, 26, 27, 28, 29]"

text \<open>Eleven anomalous rows; the ninth and tenth share a timestamp.\<close>

definition repeated_start_df :: "verdict list" where
  "repeated_start_df = map anomalous_row [0, 1, 2, 3, 4, 5, 6, 7, 8, 8, 10]"

text \<open>
  An aggregation without a value, for examples in which no group is aggregated.
\<close>

definition no_aggregate :: "float64 list \<Rightarrow> float64" where
  "no_aggregate xs = NaN"

text \<open>
  The doubles written \<^verbatim>\<open>0.1\<close>, \<^verbatim>\<open>0.2\<close> and \<^verbatim>\<open>0.7000000000000001\<close>.
\<close>

definition double_0_1 :: float64 where
  "double_0_1 = Finite (3602879701896397 / 2 ^ 55)"

definition double_0_2 :: float64 where
  "double_0_2 = Finite (3602879701896397 / 2 ^ 54)"

definition double_0_7_up :: float64 where
  "double_0_7_up = Finite (6305039478318695 / 2 ^ 53)"

section \<open>Verified properties\<close>

subsection \<open>Double-precision arithmetic\<close>

lemma pow2_pos: "0 < pow2 k"
  by (simp add: pow2_def)

lemma pow2_Suc: "pow2 (k + 1) = 2 * pow2 k"
proof (cases "0 \<le> k")
  case True
  then have "nat (k + 1) = Suc (nat k)" by simp
  with True show ?thesis by (simp add: pow2_def)
next
  case False
  then have "nat (- k) = Suc (nat (- (k + 1)))" by simp
  with False show ?thesis by (simp add: pow2_def)
qed

lemma pow2_mono: "k \<le> l \<Longrightarrow> pow2 k \<le> pow2 l"
proof (induction "nat (l - k)" arbitrary: l)
  case 0
  then show ?case by simp
next
  case (Suc n)
  then have "n = nat ((l - 1) - k)" "k \<le> l - 1" by simp_all
  then have "pow2 k \<le> pow2 (l - 1)" using Suc.hyps(1) by blast
  also have "\<dots> \<le> pow2 l"
    using pow2_Suc [of "l - 1"] pow2_pos [of "l - 1"] by simp
  finally show ?case .
qed

text \<open>The search finds the exponent of every magnitude in the normal range.\<close>

lemma exponent_search_found:
  assumes "e0 \<le> e" and "nat (e - e0) \<le> n" and "pow2 e0 \<le> x" and "x < pow2 (e0 + 1)"
  shows "exponent_search n e x = e0"
  using assms
proof (induction n arbitrary: e)
  case 0
  then show ?case by simp
next
  case (Suc n)
  show ?case
  proof (cases "e = e0")
    case True
    then show ?thesis using Suc.prems by simp
  next
    case False
    then have gt: "e0 + 1 \<le> e" using Suc.prems(1) by simp
    have "x < pow2 e"
      using pow2_mono [OF gt] Suc.prems(4) by simp
    then have "exponent_search (Suc n) e x = exponent_search n (e - 1) x"
      by simp
    also have "\<dots> = e0"
      using gt Suc.prems by (intro Suc.IH) simp_all
    finally show ?thesis .
  qed
qed

lemma exponent_of_eq:
  assumes "- 1022 \<le> e" and "e \<le> 1023" and "pow2 e \<le> \<bar>x\<bar>" and "\<bar>x\<bar> < pow2 (e + 1)"
  shows "exponent_of x = e"
  unfolding exponent_of_def
  using assms by (intro exponent_search_found) simp_all

lemma round_to_double_0: "round_to_double 0 = Finite 0"
  by (simp add: round_to_double_def round_half_even_def Let_def pow2_def)

lemma round_to_double_normal:
  assumes "- 1022 \<le> e" and "e \<le> 1023" and "pow2 e \<le> \<bar>x\<bar>" and "\<bar>x\<bar> < pow2 (e + 1)"
  shows "round_to_double x =
     (let ulp = pow2 (e - 52);
          y = of_int (round_half_even (\<bar>x\<bar> / ulp)) * ulp
      in if pow2 1024 \<le> y then (if 0 < x then PosInf else NegInf)
         else Finite (if 0 < x then y else - y))"
  by (simp add: round_to_double_def exponent_of_eq [OF assms])

text \<open>The float64 nearest to one millionth is \<open>4722366482869645 / 2 ^ 72\<close>.\<close>

lemma STD_DEV_EPSILON_value: "STD_DEV_EPSILON = Finite (4722366482869645 / 2 ^ 72)"
  unfolding STD_DEV_EPSILON_def
  by (subst round_to_double_normal [of "- 20"])
     (simp_all add: pow2_def round_half_even_def Let_def)

text \<open>Arithmetic on zeros is exact.\<close>

lemma zero_statistics_bounds:
  "upper_bound_of 0 0 = 0" "lower_bound_of 0 0 = 0"
  by (simp_all add: upper_bound_of_def lower_bound_of_def np_maximum_def STD_DEV_THRESHOLD_def
      zero_float64_def plus_float64_def minus_float64_def times_float64_def less_float64_def
      round_to_double_0)

lemma zero_statistics_not_flagged:
  "\<not> deviation_anomaly v lb ub 0" "\<not> zero_anomaly v 0"
  by (simp_all add: deviation_anomaly_def zero_anomaly_def STD_DEV_EPSILON_value
      BASELINE_ZERO_THRESHOLD_def zero_float64_def less_float64_def less_eq_float64_def)

subsection \<open>Baseline statistics\<close>

lemma foldl_groupby_add:
  "foldl groupby_add g df k =
     (let new = map snd (filter (\<lambda>r. minute_of_week_of (fst r) = k) df) in
      case g k of None \<Rightarrow> (if new = [] then None else Some new) | Some vs \<Rightarrow> Some (vs @ new))"
  by (induction df arbitrary: g) (auto simp: groupby_add_def Let_def split: option.splits)

lemma groupby_lookup:
  "groupby df k =
     (let xs = map snd (filter (\<lambda>r. minute_of_week_of (fst r) = k) df) in
      if xs = [] then None else Some xs)"
  by (simp add: groupby_def foldl_groupby_add Let_def)

text \<open>
  The row of a key is made of the two aggregations of exactly the values of that key, in
  row order, with a NaN standard deviation replaced by 0.
\<close>

lemma baseline_group_row:
  assumes "xs = map snd (filter (\<lambda>r. minute_of_week_of (fst r) = k) df)" and "xs \<noteq> []"
  shows "\<exists>stats. calculate_baseline_stats pd_mean pd_std (Some (DatetimeIndexed df)) = Some stats
           \<and> stats k = Some (pd_mean xs, if pd_std xs = NaN then 0 else pd_std xs)"
  using assms
  by (simp add: calculate_baseline_stats_def baseline_body_def datetime_rows_def groupby_lookup
      fillna0_def Let_def)

text \<open>
  A frame whose index is not a \<^verbatim>\<open>DatetimeIndex\<close> makes the \<^verbatim>\<open>try\<close> body raise, and both
  functions return \<^verbatim>\<open>None\<close> through their \<^verbatim>\<open>except\<close> branch.
\<close>

lemma other_index_rejected:
  "calculate_baseline_stats pd_mean pd_std (Some (OtherIndexed vs)) = None"
  "detect_anomalies (Some (OtherIndexed vs)) (Some stats) = None"
  by (simp_all add: calculate_baseline_stats_def baseline_body_def detect_anomalies_def
      detect_body_def datetime_rows_def)

text \<open>
  Claim C1, as stated, fails: an empty baseline frame is not rejected. The result is a
  table, and classifying an empty measured frame against it gives an empty frame.
\<close>

theorem empty_input_not_rejected_counterexample:
  "calculate_baseline_stats no_aggregate no_aggregate (Some (DatetimeIndexed [])) \<noteq> None
   \<and> detect_anomalies (Some (DatetimeIndexed []))
        (calculate_baseline_stats no_aggregate no_aggregate (Some (DatetimeIndexed [])))
      = Some []"
  by (simp add: calculate_baseline_stats_def baseline_body_def detect_anomalies_def
      detect_body_def datetime_rows_def)

text \<open>
  Claim C1, amended. Both stages return \<^verbatim>\<open>None\<close> when an input is absent (\<^verbatim>\<open>None\<close>). An
  empty input is not a failure: an empty baseline frame gives an empty table, an empty
  measured frame gives an empty result, and against an empty table every measured row
  gets mean 0 and standard deviation 0 and is not an anomaly.
\<close>

theorem absent_input_rejected_empty_processed:
  "calculate_baseline_stats pd_mean pd_std None = None
   \<and> (\<exists>stats. calculate_baseline_stats pd_mean pd_std (Some (DatetimeIndexed [])) = Some stats
         \<and> dom stats = {})
   \<and> detect_anomalies None baseline = None
   \<and> detect_anomalies measured None = None
   \<and> detect_anomalies (Some (DatetimeIndexed [])) (Some stats) = Some []
   \<and> (\<exists>out. detect_anomalies (Some (DatetimeIndexed mdf)) (Some Map.empty) = Some out
         \<and> length out = length mdf
         \<and> list_all (\<lambda>r. mean r = 0 \<and> std r = 0 \<and> \<not> is_anomaly r) out)"
proof -
  have "groupby [] = Map.empty"
    by (simp add: groupby_def)
  then have e: "\<exists>stats. calculate_baseline_stats pd_mean pd_std (Some (DatetimeIndexed [])) = Some stats
                  \<and> dom stats = {}"
    by (simp add: calculate_baseline_stats_def baseline_body_def datetime_rows_def)
  have r: "mean (classify_row Map.empty row) = 0 \<and> std (classify_row Map.empty row) = 0
           \<and> \<not> is_anomaly (classify_row Map.empty row)" for row
    by (simp add: classify_row_def Let_def merged_mean_def merged_std_def fillna0_def
        zero_statistics_not_flagged)
  have l: "list_all (\<lambda>r. mean r = 0 \<and> std r = 0 \<and> \<not> is_anomaly r)
             (map (classify_row Map.empty) mdf)"
    by (simp add: list_all_iff r)
  have m: "detect_anomalies measured None = None"
    by (simp add: detect_anomalies_def split: option.splits)
  show ?thesis
    using e l m
    by (simp add: calculate_baseline_stats_def detect_anomalies_def detect_body_def
        datetime_rows_def)
qed

subsection \<open>Classification\<close>

lemma classify_row_fields:
  "time (classify_row stats row) = fst row"
  "measurement_value (classify_row stats row) = snd row"
  "minute_of_week (classify_row stats row) = minute_of_week_of (fst row)"
  "mean (classify_row stats row) = merged_mean stats (minute_of_week_of (fst row))"
  "std (classify_row stats row) = merged_std stats (minute_of_week_of (fst row))"
  "upper_bound (classify_row stats row) =
     upper_bound_of (merged_mean stats (minute_of_week_of (fst row)))
                    (merged_std stats (minute_of_week_of (fst row)))"
  "lower_bound (classify_row stats row) =
     lower_bound_of (merged_mean stats (minute_of_week_of (fst row)))
                    (merged_std stats (minute_of_week_of (fst row)))"
  by (simp_all add: classify_row_def Let_def)

lemma classify_row_is_anomaly:
  "is_anomaly (classify_row stats row) =
     (deviation_anomaly (snd row) (lower_bound (classify_row stats row))
        (upper_bound (classify_row stats row)) (std (classify_row stats row))
      \<or> zero_anomaly (snd row) (mean (classify_row stats row)))"
  by (simp add: classify_row_def Let_def)

lemma classify_row_anomaly_type:
  "anomaly_type (classify_row stats row) =
     assign_type
       (deviation_anomaly (snd row) (lower_bound (classify_row stats row))
          (upper_bound (classify_row stats row)) (std (classify_row stats row)))
       (zero_anomaly (snd row) (mean (classify_row stats row)))
       (snd row) (lower_bound (classify_row stats row)) (upper_bound (classify_row stats row))"
  by (simp add: classify_row_def Let_def)

lemma assign_type_priority:
  "assign_type dev zero v lb ub =
     (if zero then ''Zero''
      else if dev \<and> v < lb then ''Low''
      else if dev \<and> v > ub then ''High''
      else ''Normal'')"
  by (simp add: assign_type_def Let_def)

lemma detect_anomalies_rows:
  "detect_anomalies (Some (DatetimeIndexed df)) (Some stats) = Some (map (classify_row stats) df)"
  by (simp add: detect_anomalies_def detect_body_def datetime_rows_def)

text \<open>
  Claim C3. Every row of the result of \<^verbatim>\<open>detect_anomalies\<close> carries the statistics of
  its bucket (0 for a missing one), \<open>upper_bound = mean + STD_DEV_THRESHOLD * std\<close> and
  \<open>lower_bound = np_maximum 0 (mean - STD_DEV_THRESHOLD * std)\<close> in float64 arithmetic, and
  is flagged exactly when the value is outside the bounds with \<open>std > STD_DEV_EPSILON\<close>,
  or the value is 0 with \<open>mean \<ge> BASELINE_ZERO_THRESHOLD\<close>.
\<close>

theorem classifier_bounds_and_flag:
  assumes "i < length df"
  shows "\<exists>out. detect_anomalies (Some (DatetimeIndexed df)) (Some stats) = Some out
           \<and> length out = length df \<and>
           (let v = snd (df ! i);
                k = minute_of_week_of (fst (df ! i));
                m = (case stats k of None \<Rightarrow> 0 | Some ms \<Rightarrow> fillna0 (fst ms));
                s = (case stats k of None \<Rightarrow> 0 | Some ms \<Rightarrow> fillna0 (snd ms));
                r = out ! i
            in mean r = m \<and> std r = s \<and> measurement_value r = v \<and>
               upper_bound r = m + STD_DEV_THRESHOLD * s \<and>
               lower_bound r = np_maximum 0 (m - STD_DEV_THRESHOLD * s) \<and>
               (is_anomaly r \<longleftrightarrow>
                  ((v < lower_bound r \<or> v > upper_bound r) \<and> s > STD_DEV_EPSILON)
                  \<or> (v = 0 \<and> m \<ge> BASELINE_ZERO_THRESHOLD)))"
  using assms
  by (simp add: detect_anomalies_rows classify_row_fields classify_row_is_anomaly
      deviation_anomaly_def zero_anomaly_def upper_bound_of_def lower_bound_of_def
      merged_mean_def merged_std_def fillna0_def Let_def split: option.splits)

text \<open>
  The arithmetic of two rows, exact to the last bit: \<^verbatim>\<open>0.1 + 3.0 * 0.2\<close> rounds up to
  \<^verbatim>\<open>0.7000000000000001\<close>.
\<close>

lemma three_times_0_2:
  "STD_DEV_THRESHOLD * double_0_2 = Finite (1351079888211149 / 2 ^ 51)"
  unfolding STD_DEV_THRESHOLD_def double_0_2_def times_float64_def float_mul.simps
  by (subst round_to_double_normal [of "- 1"])
     (simp_all add: pow2_def round_half_even_def Let_def)

lemma upper_bound_0_1_0_2:
  "double_0_1 + STD_DEV_THRESHOLD * double_0_2 = double_0_7_up"
  unfolding three_times_0_2
  unfolding double_0_1_def double_0_7_up_def plus_float64_def float_add.simps
  by (subst round_to_double_normal [of "- 1"])
     (simp_all add: pow2_def round_half_even_def Let_def)

lemma lower_bound_0_1_0_2:
  "np_maximum 0 (double_0_1 - STD_DEV_THRESHOLD * double_0_2) = 0"
proof -
  have "double_0_1 - Finite (1351079888211149 / 2 ^ 51) = Finite (- 4503599627370497 / 2 ^ 53)"
    unfolding double_0_1_def minus_float64_def negate.simps float_add.simps
    by (subst round_to_double_normal [of "- 1"])
       (simp_all add: pow2_def round_half_even_def Let_def)
  then show ?thesis
    unfolding three_times_0_2
    by (simp add: np_maximum_def zero_float64_def less_float64_def)
qed

lemma three_times_5: "STD_DEV_THRESHOLD * Finite 5 = Finite 15"
  unfolding STD_DEV_THRESHOLD_def times_float64_def float_mul.simps
  by (subst round_to_double_normal [of 3])
     (simp_all add: pow2_def round_half_even_def Let_def)

lemma bounds_100_5:
  "Finite 100 + STD_DEV_THRESHOLD * Finite 5 = Finite 115"
  "np_maximum 0 (Finite 100 - STD_DEV_THRESHOLD * Finite 5) = Finite 85"
proof -
  show "Finite 100 + STD_DEV_THRESHOLD * Finite 5 = Finite 115"
    unfolding three_times_5 plus_float64_def float_add.simps
    by (subst round_to_double_normal [of 6])
       (simp_all add: pow2_def round_half_even_def Let_def)
  have "Finite 100 - Finite 15 = Finite 85"
    unfolding minus_float64_def negate.simps float_add.simps
    by (subst round_to_double_normal [of 6])
       (simp_all add: pow2_def round_half_even_def Let_def)
  then show "np_maximum 0 (Finite 100 - STD_DEV_THRESHOLD * Finite 5) = Finite 85"
    unfolding three_times_5
    by (simp add: np_maximum_def zero_float64_def less_float64_def)
qed

theorem classifier_bounds_and_flag_witness:
  "(\<exists>out. detect_anomalies (Some (DatetimeIndexed [(0, double_0_7_up)]))
             (Some [4320 \<mapsto> (double_0_1, double_0_2)]) = Some out
          \<and> length out = 1 \<and> mean (out ! 0) = double_0_1 \<and> std (out ! 0) = double_0_2
          \<and> upper_bound (out ! 0) = double_0_7_up \<and> lower_bound (out ! 0) = 0
          \<and> \<not> is_anomaly (out ! 0))
   \<and> (\<exists>out. detect_anomalies (Some (DatetimeIndexed [(0, Finite 200)]))
             (Some [4320 \<mapsto> (Finite 100, Finite 5)]) = Some out
          \<and> length out = 1 \<and> mean (out ! 0) = Finite 100 \<and> std (out ! 0) = Finite 5
          \<and> upper_bound (out ! 0) = Finite 115 \<and> lower_bound (out ! 0) = Finite 85
          \<and> is_anomaly (out ! 0))"
proof -
  have key: "minute_of_week_of 0 = 4320"
    by (simp add: minute_of_week_of_def dayofweek_def hour_def minute_def)
  have fill: "fillna0 double_0_1 = double_0_1" "fillna0 double_0_2 = double_0_2"
    "fillna0 (Finite 100) = Finite 100" "fillna0 (Finite 5) = Finite 5"
    by (simp_all add: fillna0_def double_0_1_def double_0_2_def)
  have cmp: "\<not> double_0_7_up < 0" "\<not> double_0_7_up < double_0_7_up" "double_0_7_up \<noteq> 0"
    "Finite 115 < Finite 200" "STD_DEV_EPSILON < Finite 5" "STD_DEV_EPSILON < double_0_2"
    by (simp_all add: double_0_7_up_def double_0_2_def zero_float64_def less_float64_def
        STD_DEV_EPSILON_value)
  have first: "\<exists>out. detect_anomalies (Some (DatetimeIndexed [(0, double_0_7_up)]))
             (Some [4320 \<mapsto> (double_0_1, double_0_2)]) = Some out
          \<and> length out = 1 \<and> mean (out ! 0) = double_0_1 \<and> std (out ! 0) = double_0_2
          \<and> upper_bound (out ! 0) = double_0_7_up \<and> lower_bound (out ! 0) = 0
          \<and> \<not> is_anomaly (out ! 0)"
    using classifier_bounds_and_flag
      [of 0 "[(0, double_0_7_up)]" "[4320 \<mapsto> (double_0_1, double_0_2)]"]
    by (auto simp add: Let_def key fill cmp upper_bound_0_1_0_2 lower_bound_0_1_0_2)
  have second: "\<exists>out. detect_anomalies (Some (DatetimeIndexed [(0, Finite 200)]))
             (Some [4320 \<mapsto> (Finite 100, Finite 5)]) = Some out
          \<and> length out = 1 \<and> mean (out ! 0) = Finite 100 \<and> std (out ! 0) = Finite 5
          \<and> upper_bound (out ! 0) = Finite 115 \<and> lower_bound (out ! 0) = Finite 85
          \<and> is_anomaly (out ! 0)"
    using classifier_bounds_and_flag
      [of 0 "[(0, Finite 200)]" "[4320 \<mapsto> (Finite 100, Finite 5)]"]
    by (auto simp add: Let_def key fill cmp bounds_100_5)
  show ?thesis
    using first second by blast
qed

text \<open>
  Claim C4. The type of every row follows the priority Zero, Low, High, Normal: Zero
  whenever the zero condition holds, also when the deviation condition holds as well.
\<close>

theorem anomaly_type_priority:
  assumes "i < length df"
  shows "\<exists>out. detect_anomalies (Some (DatetimeIndexed df)) (Some stats) = Some out \<and>
           (let r = out ! i; v = measurement_value r;
                deviation = ((v < lower_bound r \<or> v > upper_bound r) \<and> std r > STD_DEV_EPSILON);
                zero = (v = 0 \<and> mean r \<ge> BASELINE_ZERO_THRESHOLD)
            in v = snd (df ! i) \<and>
               anomaly_type r =
                 (if zero then ''Zero''
                  else if deviation \<and> v < lower_bound r then ''Low''
                  else if deviation \<and> v > upper_bound r then ''High''
                  else ''Normal''))"
  using assms
  by (simp add: detect_anomalies_rows classify_row_fields classify_row_anomaly_type
      assign_type_priority deviation_anomaly_def zero_anomaly_def Let_def)

lemma bounds_300_5:
  "np_maximum 0 (Finite 300 - STD_DEV_THRESHOLD * Finite 5) = Finite 285"
proof -
  have "Finite 300 - Finite 15 = Finite 285"
    unfolding minus_float64_def negate.simps float_add.simps
    by (subst round_to_double_normal [of 8])
       (simp_all add: pow2_def round_half_even_def Let_def)
  then show ?thesis
    unfolding three_times_5
    by (simp add: np_maximum_def zero_float64_def less_float64_def)
qed

theorem anomaly_type_priority_witness:
  "\<exists>out. detect_anomalies (Some (DatetimeIndexed [(0, 0)]))
            (Some [4320 \<mapsto> (Finite 300, Finite 5)]) = Some out \<and>
     measurement_value (out ! 0) = 0 \<and> lower_bound (out ! 0) = Finite 285 \<and>
     std (out ! 0) = Finite 5 \<and> anomaly_type (out ! 0) = ''Zero''"
proof -
  have key: "minute_of_week_of 0 = 4320"
    by (simp add: minute_of_week_of_def dayofweek_def hour_def minute_def)
  have zero: "Finite 300 \<ge> BASELINE_ZERO_THRESHOLD"
    by (simp add: BASELINE_ZERO_THRESHOLD_def less_eq_float64_def)
  show ?thesis
    using anomaly_type_priority [of 0 "[(0, 0)]" "[4320 \<mapsto> (Finite 300, Finite 5)]"] zero
    by (auto simp add: Let_def key detect_anomalies_rows classify_row_fields merged_mean_def
        merged_std_def fillna0_def lower_bound_of_def bounds_300_5)
qed

text \<open>
  Claim C6. A measured row whose bucket is not in the table gets mean 0, standard
  deviation 0 and both bounds 0, and whatever its value it is not a deviation anomaly
  (nor an anomaly at all).
\<close>

theorem absent_bucket_not_flagged:
  assumes "i < length df" and "stats (minute_of_week_of (fst (df ! i))) = None"
  shows "\<exists>out. detect_anomalies (Some (DatetimeIndexed df)) (Some stats) = Some out \<and>
           (let r = out ! i; v = snd (df ! i)
            in mean r = 0 \<and> std r = 0 \<and> lower_bound r = 0 \<and> upper_bound r = 0 \<and>
               \<not> ((v < lower_bound r \<or> v > upper_bound r) \<and> std r > STD_DEV_EPSILON) \<and>
               \<not> is_anomaly r \<and> anomaly_type r = ''Normal'')"
proof -
  have m: "merged_mean stats (minute_of_week_of (fst (df ! i))) = 0"
    "merged_std stats (minute_of_week_of (fst (df ! i))) = 0"
    using assms(2) by (simp_all add: merged_mean_def merged_std_def fillna0_def)
  have eps: "\<not> (0::float64) > STD_DEV_EPSILON"
    by (simp add: STD_DEV_EPSILON_value zero_float64_def less_float64_def)
  show ?thesis
    using assms(1) eps
    by (simp add: detect_anomalies_rows classify_row_fields classify_row_is_anomaly
        classify_row_anomaly_type assign_type_priority m zero_statistics_bounds
        zero_statistics_not_flagged Let_def)
qed

theorem absent_bucket_not_flagged_witness:
  "\<exists>out. detect_anomalies (Some (DatetimeIndexed [(0, Finite 500)]))
            (Some [17 \<mapsto> (Finite 100, Finite 5)]) = Some out \<and>
     mean (out ! 0) = 0 \<and> std (out ! 0) = 0 \<and> lower_bound (out ! 0) = 0 \<and>
     upper_bound (out ! 0) = 0 \<and> \<not> is_anomaly (out ! 0) \<and> anomaly_type (out ! 0) = ''Normal''"
  using absent_bucket_not_flagged [of 0 "[(0, Finite 500)]" "[17 \<mapsto> (Finite 100, Finite 5)]"]
  by (auto simp add: Let_def minute_of_week_of_def dayofweek_def hour_def minute_def)

subsection \<open>Alert state machine\<close>

lemmas eval_defs = state_before_def events_before_def initial_state_def
      step_def Let_def backtrack_row_def get_loc_def backtrack_pos_def iloc_def
      CONSECUTIVE_MINUTES_THRESHOLD_def anomalous_row_def normal_row_def

lemma monitor_loop_append:
  "monitor_loop df (xs @ ys) s =
     (let (s1, es1) = monitor_loop df xs s;
          (s2, es2) = monitor_loop df ys s1
      in (s2, es1 @ es2))"
  by (induction xs arbitrary: s) (simp_all add: Let_def split: prod.splits)


lemma run_Suc:
  assumes "i < length df"
  shows "state_before df (Suc i) = fst (step df (df ! i) (state_before df i))"
    and "events_before df (Suc i) = events_before df i @ snd (step df (df ! i) (state_before df i))"
  using assms
  by (simp_all add: state_before_def events_before_def take_Suc_conv_app_nth monitor_loop_append
      Let_def split: prod.splits)

lemma run_0: "state_before df 0 = initial_state" "events_before df 0 = []"
  by (simp_all add: state_before_def events_before_def)

lemma filter_eq_index:
  "i < n \<Longrightarrow> filter (\<lambda>j. j = i) [0..<n] = [i]"
proof (induction n)
  case 0
  then show ?case by simp
next
  case (Suc n)
  show ?case
  proof (cases "i = n")
    case True
    have "filter (\<lambda>j. j = n) [0..<n] = []"
      by (simp add: filter_empty_conv)
    then show ?thesis using True by simp
  next
    case False
    then show ?thesis using Suc by simp
  qed
qed

lemma get_loc_distinct:
  assumes "distinct idx" and "i < length idx"
  shows "get_loc idx (idx ! i) = Inr (IntLoc i)"
proof -
  have "filter (\<lambda>j. idx ! j = idx ! i) [0..<length idx] = filter (\<lambda>j. j = i) [0..<length idx]"
    using assms by (intro filter_cong) (auto simp: nth_eq_iff_index_eq)
  then show ?thesis
    using assms(2) by (simp add: get_loc_def filter_eq_index)
qed

lemma backtrack_row_distinct:
  assumes "distinct (map time df)" and "i < length df"
  shows "backtrack_row df (time (df ! i))
         = Inr (df ! nat (max 0 (int i - (CONSECUTIVE_MINUTES_THRESHOLD - 1))))"
proof -
  have "get_loc (map time df) (map time df ! i) = Inr (IntLoc i)"
    using assms by (intro get_loc_distinct) simp_all
  then have "get_loc (map time df) (time (df ! i)) = Inr (IntLoc i)"
    using assms(2) by simp
  then show ?thesis
    using assms(2)
    by (auto simp add: backtrack_row_def backtrack_pos_def iloc_def CONSECUTIVE_MINUTES_THRESHOLD_def)
qed

lemma strictly_ascending_distinct:
  "sorted_wrt (<) (xs :: int list) \<Longrightarrow> distinct xs"
  by (simp add: strict_sorted_iff)

lemma step_streaks:
  "anomaly_streak (fst (step df r s)) =
     (if is_anomaly r then anomaly_streak s + 1
      else if anomaly_streak s > 0 then 0 else anomaly_streak s)"
  "normal_streak (fst (step df r s)) = (if is_anomaly r then 0 else normal_streak s + 1)"
  by (simp_all add: step_def Let_def split: sum.splits)

lemma trailing_run:
  assumes "length (takeWhile P (rev xs)) = n"
  shows "n \<le> length xs"
    and "\<And>j. length xs - n \<le> j \<Longrightarrow> j < length xs \<Longrightarrow> P (xs ! j)"
    and "n < length xs \<Longrightarrow> \<not> P (xs ! (length xs - n - 1))"
proof -
  show le: "n \<le> length xs"
    using assms length_takeWhile_le [of P "rev xs"] by simp
  show "P (xs ! j)" if "length xs - n \<le> j" "j < length xs" for j
  proof -
    have k: "length xs - 1 - j < length (takeWhile P (rev xs))"
      using that assms le by simp
    have "P (rev xs ! (length xs - 1 - j))"
      using k by (metis nth_mem set_takeWhileD takeWhile_nth)
    then show ?thesis
      using that by (simp add: rev_nth)
  qed
  show "\<not> P (xs ! (length xs - n - 1))" if "n < length xs"
  proof -
    have "\<not> P (rev xs ! n)"
      using that assms nth_length_takeWhile [of P "rev xs"] by simp
    then show ?thesis
      using that by (simp add: rev_nth)
  qed
qed


lemma open_alert_append:
  "open_alert (es @ es') cur = open_alert es' (open_alert es cur)"
  by (induction es cur rule: open_alert.induct) simp_all

lemma step_open_alert:
  assumes "alert_start_timestamp s = map_option fst cur"
    and "initial_anomaly_type s = map_option snd cur"
    and "alert_active s \<longleftrightarrow> cur \<noteq> None"
  shows "alert_start_timestamp (fst (step df r s)) = map_option fst (open_alert (snd (step df r s)) cur)
       \<and> initial_anomaly_type (fst (step df r s)) = map_option snd (open_alert (snd (step df r s)) cur)
       \<and> (alert_active (fst (step df r s)) \<longleftrightarrow> open_alert (snd (step df r s)) cur \<noteq> None)"
  using assms by (simp add: step_def Let_def split: sum.splits)

lemma state_matches_log:
  "i \<le> length df \<Longrightarrow>
     alert_start_timestamp (state_before df i) = map_option fst (open_alert (events_before df i) None)
   \<and> initial_anomaly_type (state_before df i) = map_option snd (open_alert (events_before df i) None)
   \<and> (alert_active (state_before df i) \<longleftrightarrow> open_alert (events_before df i) None \<noteq> None)"
proof (induction i)
  case 0
  then show ?case by (simp add: run_0 initial_state_def)
next
  case (Suc i)
  then have i: "i < length df" by simp
  from Suc have IH:
    "alert_start_timestamp (state_before df i) = map_option fst (open_alert (events_before df i) None)"
    "initial_anomaly_type (state_before df i) = map_option snd (open_alert (events_before df i) None)"
    "alert_active (state_before df i) \<longleftrightarrow> open_alert (events_before df i) None \<noteq> None"
    by simp_all
  show ?case
    using step_open_alert [OF IH, of df "df ! i"]
    by (simp add: run_Suc [OF i] open_alert_append)
qed

lemma streak_counts:
  "i \<le> length df \<Longrightarrow>
     anomaly_streak (state_before df i) = int (length (takeWhile is_anomaly (rev (take i df))))
   \<and> normal_streak (state_before df i)
       = int (length (takeWhile (\<lambda>r. \<not> is_anomaly r) (rev (take i df))))"
proof (induction i)
  case 0
  then show ?case by (simp add: run_0 initial_state_def)
next
  case (Suc i)
  then have i: "i < length df" by simp
  then show ?case
    using Suc by (simp add: run_Suc [OF i] step_streaks take_Suc_conv_app_nth)
qed

lemma step_active_normal_bound:
  assumes "alert_active s \<longrightarrow> normal_streak s < CONSECUTIVE_MINUTES_THRESHOLD"
  shows "alert_active (fst (step df r s))
         \<longrightarrow> normal_streak (fst (step df r s)) < CONSECUTIVE_MINUTES_THRESHOLD"
  using assms
  by (auto simp add: step_def Let_def CONSECUTIVE_MINUTES_THRESHOLD_def split: sum.splits)

lemma active_normal_bound:
  "i \<le> length df \<Longrightarrow> alert_active (state_before df i)
     \<Longrightarrow> normal_streak (state_before df i) < CONSECUTIVE_MINUTES_THRESHOLD"
proof (induction i)
  case 0
  then show ?case by (simp add: run_0 initial_state_def)
next
  case (Suc i)
  then have i: "i < length df" by simp
  have "alert_active (state_before df i)
        \<longrightarrow> normal_streak (state_before df i) < CONSECUTIVE_MINUTES_THRESHOLD"
    using Suc by simp
  from step_active_normal_bound [OF this, of df "df ! i"] Suc.prems(2)
  show ?case by (simp add: run_Suc [OF i])
qed

lemma step_inactive_anomaly_bound:
  assumes "backtrack_row df (time r) = Inr v"
    and "\<not> alert_active s \<longrightarrow> anomaly_streak s < CONSECUTIVE_MINUTES_THRESHOLD"
  shows "\<not> alert_active (fst (step df r s))
         \<longrightarrow> anomaly_streak (fst (step df r s)) < CONSECUTIVE_MINUTES_THRESHOLD"
  using assms
  by (auto simp add: step_def Let_def CONSECUTIVE_MINUTES_THRESHOLD_def split: sum.splits)

lemma inactive_anomaly_bound:
  assumes d: "distinct (map time df)"
  shows "i \<le> length df \<Longrightarrow> \<not> alert_active (state_before df i)
     \<Longrightarrow> anomaly_streak (state_before df i) < CONSECUTIVE_MINUTES_THRESHOLD"
proof (induction i)
  case 0
  then show ?case by (simp add: run_0 initial_state_def CONSECUTIVE_MINUTES_THRESHOLD_def)
next
  case (Suc i)
  then have i: "i < length df" by simp
  have "\<not> alert_active (state_before df i)
        \<longrightarrow> anomaly_streak (state_before df i) < CONSECUTIVE_MINUTES_THRESHOLD"
    using Suc by simp
  from step_inactive_anomaly_bound [OF backtrack_row_distinct [OF d i] this] Suc.prems(2)
  show ?case by (simp add: run_Suc [OF i])
qed

lemma step_provenance_cleared:
  "provenance_cleared s \<Longrightarrow> provenance_cleared (fst (step df r s))"
  by (simp add: provenance_cleared_def step_def Let_def split: sum.splits)

lemma step_alternating:
  assumes "backtrack_row df (time r) = Inr v"
  shows "alternating (alert_active s) (snd (step df r s) @ es)
         = alternating (alert_active (fst (step df r s))) es"
  using assms by (simp add: step_def Let_def)

lemma monitor_loop_alternating:
  assumes "\<forall>r \<in> set rows. \<exists>v. backtrack_row df (time r) = Inr v"
  shows "alternating (alert_active s) (snd (monitor_loop df rows s) @ es)
         = alternating (alert_active (fst (monitor_loop df rows s))) es"
  using assms
proof (induction rows arbitrary: s)
  case Nil
  then show ?case by simp
next
  case (Cons r rows)
  then obtain v where v: "backtrack_row df (time r) = Inr v" by auto
  have "alternating (alert_active s) (snd (monitor_loop df (r # rows) s) @ es)
        = alternating (alert_active s)
            (snd (step df r s) @ (snd (monitor_loop df rows (fst (step df r s))) @ es))"
    by (simp add: Let_def split: prod.splits)
  also have "\<dots> = alternating (alert_active (fst (step df r s)))
                     (snd (monitor_loop df rows (fst (step df r s))) @ es)"
    by (rule step_alternating [OF v])
  also have "\<dots> = alternating (alert_active (fst (monitor_loop df rows (fst (step df r s))))) es"
    using Cons by simp
  finally show ?case by (simp add: Let_def split: prod.splits)
qed

lemma step_emits_from_right_state:
  assumes "e \<in> set (snd (step df r s))"
  shows "(is_started e \<longrightarrow> \<not> alert_active s \<and> alert_active (fst (step df r s)))
       \<and> (is_resolved e \<longrightarrow> alert_active s \<and> \<not> alert_active (fst (step df r s)))"
  using assms by (auto simp add: step_def Let_def split: sum.splits if_splits)

text \<open>
  Claim C10. The invariant \<open>provenance_cleared\<close> (an inactive machine stores neither a
  start timestamp nor an initial type) holds initially and is kept by every iteration,
  the two \<^verbatim>\<open>except\<close> branches included; so it holds in every state the loop reaches.
\<close>

theorem provenance_only_while_active:
  "provenance_cleared initial_state
   \<and> (provenance_cleared s \<longrightarrow> provenance_cleared (fst (step df row s)))
   \<and> (i \<le> length df \<longrightarrow>
        (\<not> alert_active (state_before df i) \<longrightarrow>
           alert_start_timestamp (state_before df i) = None
           \<and> initial_anomaly_type (state_before df i) = None))"
proof -
  have "provenance_cleared (state_before df i)" if "i \<le> length df"
    using that
  proof (induction i)
    case 0
    then show ?case by (simp add: run_0 initial_state_def provenance_cleared_def)
  next
    case (Suc i)
    then have i: "i < length df" by simp
    with Suc show ?case by (simp add: run_Suc [OF i] step_provenance_cleared)
  qed
  then show ?thesis
    by (simp add: step_provenance_cleared) (simp add: provenance_cleared_def initial_state_def)
qed



theorem provenance_only_while_active_witness:
  "provenance_cleared initial_state
   \<and> provenance_cleared (fst (step repeated_start_df (repeated_start_df ! 0) initial_state))
   \<and> (10::nat) \<le> length repeated_start_df
   \<and> \<not> alert_active (state_before repeated_start_df 10)
   \<and> alert_start_timestamp (state_before repeated_start_df 10) = None
   \<and> initial_anomaly_type (state_before repeated_start_df 10) = None"
proof -
  have len: "(10::nat) \<le> length repeated_start_df"
    by (simp add: repeated_start_df_def)
  have inactive: "\<not> alert_active (state_before repeated_start_df 10)"
    by (simp add: repeated_start_df_def eval_defs)
  show ?thesis
    using provenance_only_while_active
      [of initial_state repeated_start_df "repeated_start_df ! 0" 10] len inactive
    by simp
qed

text \<open>
  Claim C9. When the lookups of a start or a resolve transition raise, the iteration
  still returns: it prints the error report and nothing else, leaves the machine inactive
  with start timestamp and initial type cleared and the two streak counters updated as in
  any other iteration, and the loop goes on with the remaining rows from that state.
\<close>

theorem lookup_failure_recovered:
  assumes "backtrack_row df (time row) = Inl e"
    and "(is_anomaly row \<and> anomaly_streak s + 1 \<ge> CONSECUTIVE_MINUTES_THRESHOLD
            \<and> \<not> alert_active s)
         \<or> (\<not> is_anomaly row \<and> normal_streak s + 1 \<ge> CONSECUTIVE_MINUTES_THRESHOLD
            \<and> alert_active s)"
  shows "\<exists>s'. step df row s
                = (s', [if is_anomaly row then StartError (time row) e
                        else ResolveError (time row) e])
              \<and> \<not> alert_active s'
              \<and> alert_start_timestamp s' = None
              \<and> initial_anomaly_type s' = None
              \<and> anomaly_streak s'
                  = (if is_anomaly row then anomaly_streak s + 1
                     else if anomaly_streak s > 0 then 0 else anomaly_streak s)
              \<and> normal_streak s' = (if is_anomaly row then 0 else normal_streak s + 1)
              \<and> monitor_loop df (row # rest) s
                  = (fst (monitor_loop df rest s'),
                     (if is_anomaly row then StartError (time row) e
                      else ResolveError (time row) e) # snd (monitor_loop df rest s'))"
  using assms
  by (auto simp add: step_def Let_def split: prod.splits)


theorem lookup_failure_recovered_witness:
  "backtrack_row repeated_start_df (time (repeated_start_df ! 9)) = Inl TypeError
   \<and> is_anomaly (repeated_start_df ! 9)
   \<and> anomaly_streak (state_before repeated_start_df 9) + 1 \<ge> CONSECUTIVE_MINUTES_THRESHOLD
   \<and> \<not> alert_active (state_before repeated_start_df 9)
   \<and> (\<exists>s'. step repeated_start_df (repeated_start_df ! 9) (state_before repeated_start_df 9)
              = (s', [StartError 8 TypeError])
            \<and> \<not> alert_active s' \<and> alert_start_timestamp s' = None
            \<and> initial_anomaly_type s' = None \<and> anomaly_streak s' = 10 \<and> normal_streak s' = 0
            \<and> monitor_loop repeated_start_df [repeated_start_df ! 9, repeated_start_df ! 10]
                 (state_before repeated_start_df 9)
               = (fst (monitor_loop repeated_start_df [repeated_start_df ! 10] s'),
                  [StartError 8 TypeError, AlertStarted 10 1 ''Zero'' 0 0 (Finite 300) (Finite 300) (Finite 300)]))"
proof -
  have fails: "backtrack_row repeated_start_df (time (repeated_start_df ! 9)) = Inl TypeError"
    by (simp add: repeated_start_df_def eval_defs)
  have before: "state_before repeated_start_df 9
                = \<lparr> alert_active = False, anomaly_streak = 9, normal_streak = 0,
                    alert_start_timestamp = None, initial_anomaly_type = None \<rparr>"
    by (simp add: repeated_start_df_def eval_defs)
  have row: "is_anomaly (repeated_start_df ! 9)" "time (repeated_start_df ! 9) = 8"
    by (simp_all add: repeated_start_df_def anomalous_row_def)
  have cond: "(is_anomaly (repeated_start_df ! 9)
               \<and> anomaly_streak (state_before repeated_start_df 9) + 1 \<ge> CONSECUTIVE_MINUTES_THRESHOLD
               \<and> \<not> alert_active (state_before repeated_start_df 9))
            \<or> (\<not> is_anomaly (repeated_start_df ! 9)
               \<and> normal_streak (state_before repeated_start_df 9) + 1 \<ge> CONSECUTIVE_MINUTES_THRESHOLD
               \<and> alert_active (state_before repeated_start_df 9))"
    using row by (simp add: before CONSECUTIVE_MINUTES_THRESHOLD_def)
  from lookup_failure_recovered [OF fails cond, of "[repeated_start_df ! 10]"]
  obtain s' where s':
    "step repeated_start_df (repeated_start_df ! 9) (state_before repeated_start_df 9)
       = (s', [StartError 8 TypeError])"
    "\<not> alert_active s'" "alert_start_timestamp s' = None" "initial_anomaly_type s' = None"
    "anomaly_streak s' = 10" "normal_streak s' = 0"
    "monitor_loop repeated_start_df [repeated_start_df ! 9, repeated_start_df ! 10]
        (state_before repeated_start_df 9)
      = (fst (monitor_loop repeated_start_df [repeated_start_df ! 10] s'),
         StartError 8 TypeError # snd (monitor_loop repeated_start_df [repeated_start_df ! 10] s'))"
    using row by (auto simp add: before)
  have s'_eq: "s' = \<lparr> alert_active = False, anomaly_streak = 10, normal_streak = 0,
                       alert_start_timestamp = None, initial_anomaly_type = None \<rparr>"
    using s'(2-6) by (cases s') simp
  have next_ev: "snd (monitor_loop repeated_start_df [repeated_start_df ! 10] s')
                 = [AlertStarted 10 1 ''Zero'' 0 0 (Finite 300) (Finite 300) (Finite 300)]"
    unfolding s'_eq by (simp add: repeated_start_df_def eval_defs)
  show ?thesis
    using fails row cond s' next_ev by (auto simp add: before CONSECUTIVE_MINUTES_THRESHOLD_def)
qed

text \<open>
  Claim C2, amended. For every frame and state, an \<open>AlertStarted\<close> is printed only by an
  iteration that starts inactive and ends active, an \<open>AlertResolved\<close> only by one that
  starts active and ends inactive. When the timestamps are strictly ascending, the
  printed \<open>AlertStarted\<close> and \<open>AlertResolved\<close> events alternate, starting with
  \<open>AlertStarted\<close>.
\<close>

theorem debounced_transitions:
  "(e \<in> set (snd (step df row s)) \<longrightarrow>
      (is_started e \<longrightarrow> \<not> alert_active s \<and> alert_active (fst (step df row s)))
      \<and> (is_resolved e \<longrightarrow> alert_active s \<and> \<not> alert_active (fst (step df row s))))
   \<and> (sorted_wrt (<) (map time df) \<longrightarrow> alternating False (monitor_and_alert (Some df)))"
proof -
  have "alternating False (monitor_and_alert (Some df))" if asc: "sorted_wrt (<) (map time df)"
  proof -
    have d: "distinct (map time df)"
      using asc by (rule strictly_ascending_distinct)
    have ok: "\<forall>r \<in> set df. \<exists>v. backtrack_row df (time r) = Inr v"
    proof
      fix r assume "r \<in> set df"
      then obtain i where "i < length df" "r = df ! i"
        by (auto simp add: in_set_conv_nth)
      then show "\<exists>v. backtrack_row df (time r) = Inr v"
        using backtrack_row_distinct [OF d] by blast
    qed
    have init: "alert_active initial_state = False"
      by (simp add: initial_state_def)
    have key: "alternating False (snd (monitor_loop df df initial_state) @ es)
          = alternating (alert_active (fst (monitor_loop df df initial_state))) es" for es
      using monitor_loop_alternating [OF ok, of initial_state es] by (simp only: init)
    show ?thesis
      using key [of "[]"]
      by (simp add: monitor_and_alert_def case_prod_beta Let_def key)
  qed
  then show ?thesis
    using step_emits_from_right_state [of e df row s] by blast
qed

text \<open>
  Claim C2, as stated, fails on a frame with a repeated timestamp: the resolve lookup
  raises, the machine is reset without an \<open>AlertResolved\<close>, and a second
  \<open>AlertStarted\<close> follows the first.
\<close>

theorem repeated_timestamp_counterexample:
  "\<not> alternating False (monitor_and_alert (Some repeated_time_df))"
  by (simp add: repeated_time_df_def monitor_and_alert_def eval_defs)

theorem debounced_transitions_witness:
  "sorted_wrt (<) (map time ascending_df)
   \<and> alternating False (monitor_and_alert (Some ascending_df))
   \<and> AlertStarted 10 1 ''Zero'' 0 0 (Finite 300) (Finite 300) (Finite 300)
       \<in> set (snd (step ascending_df (ascending_df ! 10) (state_before ascending_df 10)))
   \<and> \<not> alert_active (state_before ascending_df 10)
   \<and> alert_active (fst (step ascending_df (ascending_df ! 10) (state_before ascending_df 10)))"
proof -
  have asc: "sorted_wrt (<) (map time ascending_df)"
    by (simp add: ascending_df_def anomalous_row_def normal_row_def)
  have ev: "AlertStarted 10 1 ''Zero'' 0 0 (Finite 300) (Finite 300) (Finite 300)
            \<in> set (snd (step ascending_df (ascending_df ! 10) (state_before ascending_df 10)))"
    by (simp add: ascending_df_def eval_defs)
  show ?thesis
    using debounced_transitions [of "AlertStarted 10 1 ''Zero'' 0 0 (Finite 300) (Finite 300) (Finite 300)" ascending_df
        "ascending_df ! 10" "state_before ascending_df 10"] asc ev
    by simp
qed

text \<open>
  Claim C7. With strictly ascending timestamps, an anomalous row visited while inactive
  with the anomaly streak reaching the threshold makes the machine active and prints
  exactly one \<open>AlertStarted\<close>. Its estimated start and initial type are those of the row at
  position \<open>max 0 (i - (CONSECUTIVE_MINUTES_THRESHOLD - 1))\<close>, which is the first row of the
  streak: every row from there to \<open>i\<close> is anomalous and the row before it, if any, is not.
\<close>

theorem alert_started_at_streak_start:
  assumes asc: "sorted_wrt (<) (map time df)"
    and i: "i < length df"
    and inactive: "\<not> alert_active (state_before df i)"
    and anomalous: "is_anomaly (df ! i)"
    and reached: "anomaly_streak (state_before df i) + 1 \<ge> CONSECUTIVE_MINUTES_THRESHOLD"
  shows "let start_pos = nat (max 0 (int i - (CONSECUTIVE_MINUTES_THRESHOLD - 1)));
             first = df ! start_pos;
             row = df ! i
         in (\<exists>s'. step df row (state_before df i)
                    = (s', [AlertStarted (time row) (time first) (anomaly_type first)
                              (measurement_value first) (measurement_value row) (mean row)
                              (lower_bound row) (upper_bound row)])
                  \<and> state_before df (Suc i) = s'
                  \<and> alert_active s'
                  \<and> alert_start_timestamp s' = Some (time first)
                  \<and> initial_anomaly_type s' = Some (anomaly_type first))
            \<and> int start_pos = int i - (CONSECUTIVE_MINUTES_THRESHOLD - 1)
            \<and> (\<forall>j. start_pos \<le> j \<and> j \<le> i \<longrightarrow> is_anomaly (df ! j))
            \<and> (0 < start_pos \<longrightarrow> \<not> is_anomaly (df ! (start_pos - 1)))"
proof -
  have d: "distinct (map time df)"
    using asc by (rule strictly_ascending_distinct)
  have bt: "backtrack_row df (time (df ! i))
            = Inr (df ! nat (max 0 (int i - (CONSECUTIVE_MINUTES_THRESHOLD - 1))))"
    by (rule backtrack_row_distinct [OF d i])
  have "anomaly_streak (state_before df i) < CONSECUTIVE_MINUTES_THRESHOLD"
    using inactive_anomaly_bound [OF d, of i] i inactive by simp
  with reached have nine: "anomaly_streak (state_before df i) = 9"
    by (simp add: CONSECUTIVE_MINUTES_THRESHOLD_def)
  have cnt: "length (takeWhile is_anomaly (rev (take i df))) = 9"
    using streak_counts [of i df] i nine by simp
  have len: "length (take i df) = i"
    using i by simp
  have ge: "9 \<le> i"
    using trailing_run(1) [OF cnt] len by simp
  have run: "is_anomaly (df ! j)" if "i - 9 \<le> j" "j \<le> i" for j
  proof (cases "j = i")
    case True
    then show ?thesis using anomalous by simp
  next
    case False
    with that have "j < i" by simp
    then show ?thesis
      using trailing_run(2) [OF cnt, of j] that len by simp
  qed
  have before: "\<not> is_anomaly (df ! (i - 9 - 1))" if "9 < i"
    using trailing_run(3) [OF cnt] that len by simp
  have pos: "nat (max 0 (int i - (CONSECUTIVE_MINUTES_THRESHOLD - 1))) = i - 9"
    using ge by (simp add: CONSECUTIVE_MINUTES_THRESHOLD_def)
  have st: "step df (df ! i) (state_before df i)
            = ((state_before df i)\<lparr> anomaly_streak := 10, normal_streak := 0,
                 alert_start_timestamp := Some (time (df ! (i - 9))),
                 initial_anomaly_type := Some (anomaly_type (df ! (i - 9))),
                 alert_active := True \<rparr>,
               [AlertStarted (time (df ! i)) (time (df ! (i - 9))) (anomaly_type (df ! (i - 9)))
                  (measurement_value (df ! (i - 9))) (measurement_value (df ! i)) (mean (df ! i))
                  (lower_bound (df ! i)) (upper_bound (df ! i))])"
    using anomalous inactive nine bt reached
    by (simp add: step_def Let_def pos)
  show ?thesis
    unfolding Let_def pos
    using ge run before
    by (auto simp add: st run_Suc [OF i] CONSECUTIVE_MINUTES_THRESHOLD_def)
qed

theorem alert_started_at_streak_start_witness:
  "sorted_wrt (<) (map time ascending_df) \<and> (10::nat) < length ascending_df
   \<and> \<not> alert_active (state_before ascending_df 10)
   \<and> is_anomaly (ascending_df ! 10)
   \<and> anomaly_streak (state_before ascending_df 10) + 1 \<ge> CONSECUTIVE_MINUTES_THRESHOLD
   \<and> snd (step ascending_df (ascending_df ! 10) (state_before ascending_df 10))
       = [AlertStarted 10 1 ''Zero'' 0 0 (Finite 300) (Finite 300) (Finite 300)]
   \<and> alert_active (state_before ascending_df 11)
   \<and> alert_start_timestamp (state_before ascending_df 11) = Some 1
   \<and> initial_anomaly_type (state_before ascending_df 11) = Some ''Zero''
   \<and> \<not> is_anomaly (ascending_df ! 0)"
proof -
  have asc: "sorted_wrt (<) (map time ascending_df)"
    by (simp add: ascending_df_def anomalous_row_def normal_row_def)
  have len: "(10::nat) < length ascending_df"
    by (simp add: ascending_df_def)
  have before: "state_before ascending_df 10
                = \<lparr> alert_active = False, anomaly_streak = 9, normal_streak = 0,
                    alert_start_timestamp = None, initial_anomaly_type = None \<rparr>"
    by (simp add: ascending_df_def eval_defs)
  have inactive: "\<not> alert_active (state_before ascending_df 10)"
    and reached: "anomaly_streak (state_before ascending_df 10) + 1 \<ge> CONSECUTIVE_MINUTES_THRESHOLD"
    by (simp_all add: before CONSECUTIVE_MINUTES_THRESHOLD_def)
  have rows: "ascending_df ! 10 = anomalous_row 10" "ascending_df ! 1 = anomalous_row 1"
    "ascending_df ! Suc 0 = anomalous_row 1" "ascending_df ! 0 = normal_row 0"
    by (simp_all add: ascending_df_def)
  have anomalous: "is_anomaly (ascending_df ! 10)"
    by (simp add: rows anomalous_row_def)
  have pos: "nat (max 0 (int 10 - (CONSECUTIVE_MINUTES_THRESHOLD - 1))) = 1"
    by (simp add: CONSECUTIVE_MINUTES_THRESHOLD_def)
  show ?thesis
    using alert_started_at_streak_start [OF asc len inactive anomalous reached]
      asc len inactive anomalous reached
    unfolding Let_def pos
    by (auto simp add: rows anomalous_row_def normal_row_def CONSECUTIVE_MINUTES_THRESHOLD_def)
qed

text \<open>
  Claim C8. With strictly ascending timestamps, a normal row visited while active with
  the normal streak reaching the threshold makes the machine inactive and prints exactly
  one \<open>AlertResolved\<close>. Its estimated resolve time is that of the row at position
  \<open>max 0 (i - (CONSECUTIVE_MINUTES_THRESHOLD - 1))\<close>, the first row of the normal streak; it
  carries the stored start timestamp and initial type, which are those of the open
  \<open>AlertStarted\<close>; afterwards both stored fields are cleared.
\<close>

theorem alert_resolved_at_streak_start:
  assumes asc: "sorted_wrt (<) (map time df)"
    and i: "i < length df"
    and active: "alert_active (state_before df i)"
    and normal: "\<not> is_anomaly (df ! i)"
    and reached: "normal_streak (state_before df i) + 1 \<ge> CONSECUTIVE_MINUTES_THRESHOLD"
  shows "let resolve_pos = nat (max 0 (int i - (CONSECUTIVE_MINUTES_THRESHOLD - 1)));
             first = df ! resolve_pos;
             row = df ! i
         in (\<exists>s' t0 ty0.
                open_alert (events_before df i) None = Some (t0, ty0)
              \<and> alert_start_timestamp (state_before df i) = Some t0
              \<and> initial_anomaly_type (state_before df i) = Some ty0
              \<and> step df row (state_before df i)
                  = (s', [AlertResolved (time row) (time first) (Some t0) (Some ty0)
                            (measurement_value row) (mean row)])
              \<and> state_before df (Suc i) = s'
              \<and> \<not> alert_active s'
              \<and> alert_start_timestamp s' = None
              \<and> initial_anomaly_type s' = None)
            \<and> int resolve_pos = int i - (CONSECUTIVE_MINUTES_THRESHOLD - 1)
            \<and> (\<forall>j. resolve_pos \<le> j \<and> j \<le> i \<longrightarrow> \<not> is_anomaly (df ! j))
            \<and> (0 < resolve_pos \<longrightarrow> is_anomaly (df ! (resolve_pos - 1)))"
proof -
  have d: "distinct (map time df)"
    using asc by (rule strictly_ascending_distinct)
  have bt: "backtrack_row df (time (df ! i))
            = Inr (df ! nat (max 0 (int i - (CONSECUTIVE_MINUTES_THRESHOLD - 1))))"
    by (rule backtrack_row_distinct [OF d i])
  have "normal_streak (state_before df i) < CONSECUTIVE_MINUTES_THRESHOLD"
    using active_normal_bound [of i df] i active by simp
  with reached have nine: "normal_streak (state_before df i) = 9"
    by (simp add: CONSECUTIVE_MINUTES_THRESHOLD_def)
  have cnt: "length (takeWhile (\<lambda>r. \<not> is_anomaly r) (rev (take i df))) = 9"
    using streak_counts [of i df] i nine by simp
  have len: "length (take i df) = i"
    using i by simp
  have ge: "9 \<le> i"
    using trailing_run(1) [OF cnt] len by simp
  have run: "\<not> is_anomaly (df ! j)" if "i - 9 \<le> j" "j \<le> i" for j
  proof (cases "j = i")
    case True
    then show ?thesis using normal by simp
  next
    case False
    with that have "j < i" by simp
    then show ?thesis
      using trailing_run(2) [OF cnt, of j] that len by simp
  qed
  have before: "is_anomaly (df ! (i - 9 - 1))" if "9 < i"
    using trailing_run(3) [OF cnt] that len by simp
  have pos: "nat (max 0 (int i - (CONSECUTIVE_MINUTES_THRESHOLD - 1))) = i - 9"
    using ge by (simp add: CONSECUTIVE_MINUTES_THRESHOLD_def)
  obtain t0 ty0 where log: "open_alert (events_before df i) None = Some (t0, ty0)"
    using state_matches_log [of i df] i active by auto
  have stored: "alert_start_timestamp (state_before df i) = Some t0"
    "initial_anomaly_type (state_before df i) = Some ty0"
    using state_matches_log [of i df] i log by simp_all
  have st: "step df (df ! i) (state_before df i)
            = ((state_before df i)\<lparr> normal_streak := 10,
                 anomaly_streak := (if anomaly_streak (state_before df i) > 0 then 0
                                    else anomaly_streak (state_before df i)),
                 alert_active := False, alert_start_timestamp := None,
                 initial_anomaly_type := None \<rparr>,
               [AlertResolved (time (df ! i)) (time (df ! (i - 9))) (Some t0) (Some ty0)
                  (measurement_value (df ! i)) (mean (df ! i))])"
    using normal active nine bt reached stored
    by (simp add: step_def Let_def pos)
  show ?thesis
    unfolding Let_def pos
    using ge run before log stored
    by (auto simp add: st run_Suc [OF i] CONSECUTIVE_MINUTES_THRESHOLD_def)
qed

theorem alert_resolved_at_streak_start_witness:
  "sorted_wrt (<) (map time ascending_df) \<and> (20::nat) < length ascending_df
   \<and> alert_active (state_before ascending_df 20)
   \<and> \<not> is_anomaly (ascending_df ! 20)
   \<and> normal_streak (state_before ascending_df 20) + 1 \<ge> CONSECUTIVE_MINUTES_THRESHOLD
   \<and> snd (step ascending_df (ascending_df ! 20) (state_before ascending_df 20))
       = [AlertResolved 20 11 (Some 1) (Some ''Zero'') (Finite 300) (Finite 300)]
   \<and> \<not> alert_active (state_before ascending_df 21)
   \<and> alert_start_timestamp (state_before ascending_df 21) = None
   \<and> initial_anomaly_type (state_before ascending_df 21) = None
   \<and> is_anomaly (ascending_df ! 10)"
proof -
  have asc: "sorted_wrt (<) (map time ascending_df)"
    by (simp add: ascending_df_def anomalous_row_def normal_row_def)
  have len: "(20::nat) < length ascending_df"
    by (simp add: ascending_df_def)
  have before: "state_before ascending_df 20
                = \<lparr> alert_active = True, anomaly_streak = 0, normal_streak = 9,
                    alert_start_timestamp = Some 1, initial_anomaly_type = Some ''Zero'' \<rparr>"
    by (simp add: ascending_df_def eval_defs)
  have active: "alert_active (state_before ascending_df 20)"
    and reached: "normal_streak (state_before ascending_df 20) + 1 \<ge> CONSECUTIVE_MINUTES_THRESHOLD"
    by (simp_all add: before CONSECUTIVE_MINUTES_THRESHOLD_def)
  have rows: "ascending_df ! 20 = normal_row 20" "ascending_df ! 11 = normal_row 11"
    "ascending_df ! 10 = anomalous_row 10"
    by (simp_all add: ascending_df_def)
  have normal: "\<not> is_anomaly (ascending_df ! 20)"
    by (simp add: rows normal_row_def)
  have pos: "nat (max 0 (int 20 - (CONSECUTIVE_MINUTES_THRESHOLD - 1))) = 11"
    by (simp add: CONSECUTIVE_MINUTES_THRESHOLD_def)
  show ?thesis
    using alert_resolved_at_streak_start [OF asc len active normal reached]
      asc len active normal reached
    unfolding Let_def pos
    by (auto simp add: rows before anomalous_row_def normal_row_def CONSECUTIVE_MINUTES_THRESHOLD_def)
qed

end
